theory Spec2Isabelle
  imports Main
begin

section \<open>Data of \<open>upload_to_drive.py\<close>\<close>

text \<open>
  The script talks to three things outside itself: the process environment, the local
  file system and the remote storage client. Each is explicit here. Python exceptions
  are values of \<open>exn\<close>; a function that may raise returns \<open>exn + 'a\<close> together with the
  world it leaves behind.
\<close>

datatype api_error = HttpError nat | TransportError string

datatype exn =
    SystemExit int
  | ApiError api_error
  | KeyError string
  | TypeError
  | CredentialsError string
  | OSError string

text \<open>
  The console lines are f-strings in Chinese; each is a constructor carrying the
  interpolated values, in source order: line 31 (credential file not found, with its
  path), 48 (local file missing, skipped), 52 (processing), 59 (existing object found,
  with its identifier), 65 (updated), 67 (creating), 77 (created), 81 (set the
  environment variable), 84 (start), 90 (all done).
\<close>

datatype message =
    MsgMissingCredentials string
  | MsgSkipMissing string
  | MsgProcessing string
  | MsgFoundExisting string
  | MsgUpdated string
  | MsgCreating
  | MsgCreated string
  | MsgSetFolderEnv
  | MsgStart
  | MsgAllDone

text \<open>\<open>MediaFileUpload(filepath, mimetype=...)\<close>, with the bytes it streams.\<close>

record media_upload =
  mu_filename :: string
  mu_mimetype :: string
  mu_bytes :: string

text \<open>The \<open>file_metadata\<close> dictionary; \<open>FOLDER_ID\<close> may be \<open>None\<close> in Python.\<close>

record file_metadata =
  md_name :: string
  md_parents :: "string option list"

text \<open>
  The three remote operations with their keyword arguments. \<open>body\<close> is an optional
  keyword of both \<open>create\<close> and \<open>update\<close>.
\<close>

datatype api_request =
    FilesList string string
  | FilesUpdate string "file_metadata option" media_upload string
  | FilesCreate "file_metadata option" media_upload string

text \<open>A response is a JSON dictionary; the values the script can meet are these.\<close>

type_synonym entry = "(string \<times> string) list"

datatype jvalue = JNull | JStr string | JArr "entry list"

type_synonym api_response = "(string \<times> jvalue) list"

type_synonym service = string

text \<open>
  The client library, taken as a parameter: loading the key file (from its content),
  building the service handle from the credentials, and executing one request against a
  remote state of type \<open>'r\<close>. Each of them may raise.
\<close>

record 'r client =
  from_service_account_file :: "string \<Rightarrow> string list \<Rightarrow> exn + string"
  build :: "string \<Rightarrow> exn + service"
  execute :: "service \<Rightarrow> api_request \<Rightarrow> 'r \<Rightarrow> (api_error + api_response) \<times> 'r"

text \<open>
  What an observer of the run sees, in order: console lines, the key file being parsed,
  the service handle being built, each request handed to the client with the error it
  raised (if any), and the traceback of an uncaught exception.
\<close>

datatype event =
    Print message
  | LoadKey string "string list"
  | Build string
  | Execute api_request "api_error option"
  | Traceback exn

text \<open>
  What the local file system has at a path: a file that can be opened, with its bytes,
  or something that exists and cannot be opened for reading (a directory, a file without
  read permission). \<open>os.path.exists\<close> is true of both.
\<close>

datatype node = Readable string | Unreadable

record 'r world =
  files :: "string \<rightharpoonup> node"
  remote :: 'r
  trace :: "event list"

definition emit :: "event \<Rightarrow> 'r world \<Rightarrow> 'r world" where
  "emit e w = w\<lparr>trace := trace w @ [e]\<rparr>"

section \<open>Module constants\<close>

definition CREDENTIALS_FILE :: string where
  "CREDENTIALS_FILE = ''credentials.json''"

definition FILES_TO_UPLOAD :: "string list" where
  "FILES_TO_UPLOAD =
     [''/opt/deploy_dashboard/data/scandata.csv'',
      ''/opt/deploy_dashboard/data/obj_click_log.csv'']"

definition SCOPES :: "string list" where
  "SCOPES = [''https://www.googleapis.com/auth/drive.file'']"

section \<open>Python helpers\<close>

definition quote :: char where
  "quote = CHR 0x27"

definition backslash :: char where
  "backslash = CHR 0x5C"

text \<open>\<open>bool(x)\<close> of a value that is \<open>None\<close> or a string.\<close>

fun truthy :: "string option \<Rightarrow> bool" where
  "truthy None = False"
| "truthy (Some s) = (s \<noteq> [])"

text \<open>\<open>{x}\<close> inside an f-string.\<close>

fun py_str :: "string option \<Rightarrow> string" where
  "py_str None = ''None''"
| "py_str (Some s) = s"

text \<open>\<open>os.path.basename\<close> (posixpath): what follows the last slash.\<close>

definition basename :: "string \<Rightarrow> string" where
  "basename p = rev (takeWhile (\<lambda>c. c \<noteq> CHR ''/'') (rev p))"

text \<open>\<open>results.get('files', [])\<close>.\<close>

definition get_files :: "api_response \<Rightarrow> jvalue" where
  "get_files results = (case map_of results ''files'' of None \<Rightarrow> JArr [] | Some v \<Rightarrow> v)"

section \<open>The functions of the script\<close>

text \<open>\<open>request.execute()\<close>: one remote call, observed with its outcome.\<close>

definition call ::
  "'r client \<Rightarrow> service \<Rightarrow> api_request \<Rightarrow> 'r world \<Rightarrow> (api_error + api_response) \<times> 'r world" where
  "call cl service rq w =
     (case execute cl service rq (remote w) of
        (Inl e, r') \<Rightarrow> (Inl e, (emit (Execute rq (Some e)) w)\<lparr>remote := r'\<rparr>)
      | (Inr res, r') \<Rightarrow> (Inr res, (emit (Execute rq None) w)\<lparr>remote := r'\<rparr>))"

text \<open>
  \<open>authenticate\<close> (lines 24 to 34). \<open>os.path.exists\<close> is membership in the domain of
  \<open>files\<close>; \<open>sys.exit(1)\<close> raises \<open>SystemExit 1\<close>. The library call of line 28 opens the
  key file, which raises \<open>OSError\<close> when the path exists and cannot be opened.
\<close>

definition authenticate :: "'r client \<Rightarrow> 'r world \<Rightarrow> (exn + service) \<times> 'r world" where
  "authenticate cl w =
     (case files w CREDENTIALS_FILE of
        Some key_file \<Rightarrow>
          (let w1 = emit (LoadKey CREDENTIALS_FILE SCOPES) w in
           case key_file of
             Unreadable \<Rightarrow> (Inl (OSError CREDENTIALS_FILE), w1)
           | Readable key \<Rightarrow>
               (case from_service_account_file cl key SCOPES of
                  Inl e \<Rightarrow> (Inl e, w1)
                | Inr creds \<Rightarrow>
                    (let w2 = emit (Build creds) w1 in
                     case build cl creds of
                       Inl e \<Rightarrow> (Inl e, w2)
                     | Inr service \<Rightarrow> (Inr service, w2))))
      | None \<Rightarrow>
          (Inl (SystemExit 1), emit (Print (MsgMissingCredentials CREDENTIALS_FILE)) w))"

text \<open>The f-string of line 38.\<close>

definition build_query :: "string \<Rightarrow> string option \<Rightarrow> string" where
  "build_query filename folder_id =
     ''name = '' @ [quote] @ filename @ [quote] @ '' and '' @ [quote] @ py_str folder_id
       @ [quote] @ '' in parents and trashed = false''"

text \<open>
  \<open>find_file_in_folder\<close> (lines 36 to 43). \<open>if files:\<close> is false for \<open>None\<close>, the empty
  string and the empty list; \<open>files[0]['id']\<close> raises \<open>TypeError\<close> on a string and
  \<open>KeyError\<close> on a dictionary without the key.
\<close>

definition find_file_in_folder ::
  "'r client \<Rightarrow> service \<Rightarrow> string \<Rightarrow> string option \<Rightarrow> 'r world
     \<Rightarrow> (exn + string option) \<times> 'r world" where
  "find_file_in_folder cl service filename folder_id w =
     (let query = build_query filename folder_id in
      case call cl service (FilesList query ''files(id, name)'') w of
        (Inl e, w') \<Rightarrow> (Inl (ApiError e), w')
      | (Inr results, w') \<Rightarrow>
          (case get_files results of
             JNull \<Rightarrow> (Inr None, w')
           | JStr s \<Rightarrow> (if s = [] then (Inr None, w') else (Inl TypeError, w'))
           | JArr [] \<Rightarrow> (Inr None, w')
           | JArr (f # _) \<Rightarrow>
               (case map_of f ''id'' of
                  None \<Rightarrow> (Inl (KeyError ''id''), w')
                | Some i \<Rightarrow> (Inr (Some i), w'))))"

text \<open>
  \<open>upload_file\<close> (lines 45 to 77), with the module global \<open>FOLDER_ID\<close> as a parameter.
  \<open>MediaFileUpload\<close> (line 56) opens the file when it is constructed, after the Locator
  has returned and before the branch: on a path that exists and cannot be opened it raises
  \<open>OSError\<close>, and no write follows. \<open>if file_id:\<close> is false for \<open>None\<close> and for the empty
  string.
\<close>

definition upload_file ::
  "'r client \<Rightarrow> string option \<Rightarrow> service \<Rightarrow> string \<Rightarrow> 'r world \<Rightarrow> (exn + unit) \<times> 'r world" where
  "upload_file cl FOLDER_ID service filepath w =
     (case files w filepath of
        None \<Rightarrow> (Inr (), emit (Print (MsgSkipMissing filepath)) w)
      | Some local \<Rightarrow>
          (let filename = basename filepath;
               w1 = emit (Print (MsgProcessing filename)) w
           in case find_file_in_folder cl service filename FOLDER_ID w1 of
                (Inl e, w2) \<Rightarrow> (Inl e, w2)
              | (Inr file_id, w2) \<Rightarrow>
                  (case local of
                     Unreadable \<Rightarrow> (Inl (OSError filepath), w2)
                   | Readable bytes \<Rightarrow>
                       (let media = \<lparr>mu_filename = filepath, mu_mimetype = ''text/csv'',
                                     mu_bytes = bytes\<rparr>
                        in if truthy file_id then
                             (let w3 = emit (Print (MsgFoundExisting (the file_id))) w2 in
                              case call cl service
                                     (FilesUpdate (the file_id) None media ''id'') w3 of
                                (Inl e, w4) \<Rightarrow> (Inl (ApiError e), w4)
                              | (Inr _, w4) \<Rightarrow>
                                  (Inr (), emit (Print (MsgUpdated filename)) w4))
                           else
                             (let w3 = emit (Print MsgCreating) w2;
                                  file_metadata =
                                    \<lparr>md_name = filename, md_parents = [FOLDER_ID]\<rparr>
                              in case call cl service
                                        (FilesCreate (Some file_metadata) media ''id'') w3 of
                                   (Inl e, w4) \<Rightarrow> (Inl (ApiError e), w4)
                                 | (Inr _, w4) \<Rightarrow>
                                     (Inr (), emit (Print (MsgCreated filename)) w4))))))"

text \<open>The \<open>for\<close> loop of \<open>main\<close>; an exception leaves it at once.\<close>

fun upload_all ::
  "'r client \<Rightarrow> string option \<Rightarrow> service \<Rightarrow> string list \<Rightarrow> 'r world
     \<Rightarrow> (exn + unit) \<times> 'r world" where
  "upload_all cl FOLDER_ID service [] w = (Inr (), w)"
| "upload_all cl FOLDER_ID service (filepath # rest) w =
     (case upload_file cl FOLDER_ID service filepath w of
        (Inl e, w') \<Rightarrow> (Inl e, w')
      | (Inr _, w') \<Rightarrow> upload_all cl FOLDER_ID service rest w')"

text \<open>\<open>main\<close> (lines 79 to 90).\<close>

definition main :: "'r client \<Rightarrow> string option \<Rightarrow> 'r world \<Rightarrow> (exn + unit) \<times> 'r world" where
  "main cl FOLDER_ID w =
     (if \<not> truthy FOLDER_ID then (Inl (SystemExit 1), emit (Print MsgSetFolderEnv) w)
      else
        (let w1 = emit (Print MsgStart) w in
         case authenticate cl w1 of
           (Inl e, w2) \<Rightarrow> (Inl e, w2)
         | (Inr service, w2) \<Rightarrow>
             (case upload_all cl FOLDER_ID service FILES_TO_UPLOAD w2 of
                (Inl e, w3) \<Rightarrow> (Inl e, w3)
              | (Inr _, w3) \<Rightarrow> (Inr (), emit (Print MsgAllDone) w3))))"

text \<open>
  The process: \<open>FOLDER_ID\<close> is read from the environment at import, \<open>main\<close> runs, and
  the interpreter turns the outcome into an exit code (\<open>sys.exit(n)\<close> gives \<open>n\<close>; any
  other uncaught exception prints its traceback and gives 1).
\<close>

definition run :: "'r client \<Rightarrow> (string \<rightharpoonup> string) \<Rightarrow> 'r world \<Rightarrow> int \<times> 'r world" where
  "run cl environ w =
     (let FOLDER_ID = environ ''GOOGLE_DRIVE_FOLDER_ID'' in
      case main cl FOLDER_ID w of
        (Inr _, w') \<Rightarrow> (0, w')
      | (Inl (SystemExit n), w') \<Rightarrow> (n, w')
      | (Inl e, w') \<Rightarrow> (1, emit (Traceback e) w'))"

section \<open>A reference remote store\<close>

text \<open>
  The remote storage service is an external collaborator: the script only sends it
  requests, and its code is not part of the repository. Statements about what the remote
  holds or answers need a model of it. The store below is that model, written from what
  the specification says of the three remote operations. It is one value of the
  parameter \<open>client\<close>, like any stub; every theorem that does not mention \<open>drive\<close> holds
  for all clients.
\<close>

text \<open>
  Modelled from the spec: the remote object, "an identifier plus name, existing only
  inside the remote storage system", with its parent folders, its trashed flag and its
  content with the declared type.
\<close>

record remote_object =
  ro_id :: string
  ro_name :: string
  ro_parents :: "string list"
  ro_trashed :: bool
  ro_mime :: string
  ro_bytes :: string

text \<open>
  Modelled from the spec: the remote store, as the objects it holds in "the remote API's
  response" order.
\<close>

type_synonym store = "remote_object list"

text \<open>What is left of a text after a given beginning, if it begins so.\<close>

fun strip_prefix :: "string \<Rightarrow> string \<Rightarrow> string option" where
  "strip_prefix [] s = Some s"
| "strip_prefix (p # ps) [] = None"
| "strip_prefix (p # ps) (c # cs) = (if p = c then strip_prefix ps cs else None)"

text \<open>
  Modelled from the spec: the remote side of "list objects matching a name+parent+
  not-trashed filter". The spec names the filter and not its text; the text is the one
  the source writes, \<open>name = '...' and '...' in parents and trashed = false\<close>, and its
  string literals follow the rule of the remote query language: a literal ends at the
  first quote that no backslash precedes, and a backslash makes the next character
  literal. \<open>read_literal\<close> reads a literal after its opening quote and returns it with the
  rest of the input.
\<close>

fun read_literal :: "string \<Rightarrow> (string \<times> string) option" where
  "read_literal [] = None"
| "read_literal (c # cs) =
     (if c = quote then Some ([], cs)
      else if c = backslash then
        (case cs of
           [] \<Rightarrow> None
         | d # ds \<Rightarrow> map_option (\<lambda>(l, r). (d # l, r)) (read_literal ds))
      else map_option (\<lambda>(l, r). (c # l, r)) (read_literal cs))"

text \<open>
  Modelled from the spec: the remote side's reading of a name+parent+not-trashed query,
  giving the name and the folder asked for. Any other text is not a query of this model.
\<close>

definition parse_query :: "string \<Rightarrow> (string \<times> string) option" where
  "parse_query q =
     (case strip_prefix (''name = '' @ [quote]) q of
        None \<Rightarrow> None
      | Some r1 \<Rightarrow>
          (case read_literal r1 of
             None \<Rightarrow> None
           | Some (n, r2) \<Rightarrow>
               (case strip_prefix ('' and '' @ [quote]) r2 of
                  None \<Rightarrow> None
                | Some r3 \<Rightarrow>
                    (case read_literal r3 of
                       None \<Rightarrow> None
                     | Some (f, r4) \<Rightarrow>
                         (if r4 = '' in parents and trashed = false'' then Some (n, f)
                          else None)))))"

text \<open>
  Modelled from the spec: "exact name match (case-sensitive, no normalization), scoped to
  direct children of the given folder only, excluding any object flagged as trashed".
\<close>

definition matches :: "string \<Rightarrow> string \<Rightarrow> remote_object \<Rightarrow> bool" where
  "matches n f ob = (ro_name ob = n \<and> f \<in> set (ro_parents ob) \<and> \<not> ro_trashed ob)"

text \<open>
  Modelled from the spec: an item of the list response, with the fields \<open>files(id, name)\<close>
  that the source asks for.
\<close>

definition entry_of :: "remote_object \<Rightarrow> entry" where
  "entry_of ob = [(''id'', ro_id ob), (''name'', ro_name ob)]"

text \<open>
  Modelled from the spec: "the remote system assigns a new identifier". The one chosen is
  longer than every identifier in the store.
\<close>

definition fresh_id :: "store \<Rightarrow> string" where
  "fresh_id st = replicate (Suc (foldr max (map (length \<circ> ro_id) st) 0)) (CHR ''n'')"

text \<open>
  Modelled from the spec: "update an object's content by identifier", where "only content
  (and content-derived metadata such as revision) changes".
\<close>

definition put_media :: "media_upload \<Rightarrow> remote_object \<Rightarrow> remote_object" where
  "put_media m ob = ob\<lparr>ro_mime := mu_mimetype m, ro_bytes := mu_bytes m\<rparr>"

text \<open>
  Modelled from the spec: the metadata body of a request. An update that carries one
  renames the object; an update that carries none leaves the name alone.
\<close>

definition put_metadata :: "file_metadata option \<Rightarrow> remote_object \<Rightarrow> remote_object" where
  "put_metadata body ob = (case body of None \<Rightarrow> ob | Some md \<Rightarrow> ob\<lparr>ro_name := md_name md\<rparr>)"

text \<open>
  Modelled from the spec: the three remote operations, "list objects matching a
  name+parent+not-trashed filter; create an object with metadata and content; update an
  object's content by identifier". A text that is no query is refused (400), as is a
  create without a usable parent list; an update of an unknown identifier is refused
  (404). An update writes the media and, when it carries a metadata body, the name in it.
  Neither operation reorders the store.
\<close>

fun drive_execute ::
  "service \<Rightarrow> api_request \<Rightarrow> store \<Rightarrow> (api_error + api_response) \<times> store" where
  "drive_execute service (FilesList q flds) st =
     (case parse_query q of
        None \<Rightarrow> (Inl (HttpError 400), st)
      | Some (n, f) \<Rightarrow> (Inr [(''files'', JArr (map entry_of (filter (matches n f) st)))], st))"
| "drive_execute service (FilesUpdate file_id body media flds) st =
     (if file_id \<in> set (map ro_id st) then
        (Inr [(''id'', JStr file_id)],
         map (\<lambda>ob. if ro_id ob = file_id then put_metadata body (put_media media ob) else ob) st)
      else (Inl (HttpError 404), st))"
| "drive_execute service (FilesCreate body media flds) st =
     (case body of
        None \<Rightarrow> (Inl (HttpError 400), st)
      | Some md \<Rightarrow>
          (if None \<in> set (md_parents md) then (Inl (HttpError 400), st)
           else
             (Inr [(''id'', JStr (fresh_id st))],
              st @ [\<lparr>ro_id = fresh_id st, ro_name = md_name md,
                      ro_parents = map the (md_parents md), ro_trashed = False,
                      ro_mime = mu_mimetype media, ro_bytes = mu_bytes media\<rparr>])))"

text \<open>
  Modelled from the spec: the authorized client handle over the reference store. Loading
  the key and building the handle succeed.
\<close>

definition drive :: "store client" where
  "drive =
     \<lparr>from_service_account_file = (\<lambda>key scopes. Inr key), build = (\<lambda>creds. Inr creds),
      execute = drive_execute\<rparr>"



text \<open>A stub client that answers every request from a table and keeps no state.\<close>

definition stub :: "(api_request \<Rightarrow> api_error + api_response) \<Rightarrow> unit client" where
  "stub answer =
     \<lparr>from_service_account_file = (\<lambda>key scopes. Inr key), build = (\<lambda>creds. Inr creds),
      execute = (\<lambda>service rq r. (answer rq, r))\<rparr>"

section \<open>Observations on a trace\<close>

text \<open>The events a function added to the trace.\<close>

definition new_events :: "'r world \<Rightarrow> 'r world \<Rightarrow> event list" where
  "new_events w w' = drop (length (trace w)) (trace w')"

fun is_network :: "event \<Rightarrow> bool" where
  "is_network (Print _) = False"
| "is_network (Traceback _) = False"
| "is_network _ = True"

fun requests :: "event list \<Rightarrow> api_request list" where
  "requests [] = []"
| "requests (Execute rq _ # es) = rq # requests es"
| "requests (_ # es) = requests es"

fun is_write :: "api_request \<Rightarrow> bool" where
  "is_write (FilesList _ _) = False"
| "is_write _ = True"


fun failed :: "event \<Rightarrow> bool" where
  "failed (Execute _ (Some _)) = True"
| "failed _ = False"

text \<open>The content type a request declares for its body, if it has one.\<close>

fun declared_type :: "api_request \<Rightarrow> string option" where
  "declared_type (FilesList _ _) = None"
| "declared_type (FilesUpdate _ _ m _) = Some (mu_mimetype m)"
| "declared_type (FilesCreate _ m _) = Some (mu_mimetype m)"

text \<open>A string that a query literal carries unchanged: no quote and no backslash.\<close>

definition plain :: "string \<Rightarrow> bool" where
  "plain s = (quote \<notin> set s \<and> backslash \<notin> set s)"

text \<open>The first object of the store that matches, as the claim about the Locator has it.\<close>

definition first_match :: "store \<Rightarrow> string \<Rightarrow> string \<Rightarrow> string option" where
  "first_match st n f = (case filter (matches n f) st of [] \<Rightarrow> None | ob # _ \<Rightarrow> Some (ro_id ob))"

text \<open>What an update of content must leave alone.\<close>

definition metadata_of :: "remote_object \<Rightarrow> string \<times> string \<times> string list \<times> bool" where
  "metadata_of ob = (ro_id ob, ro_name ob, ro_parents ob, ro_trashed ob)"

section \<open>Sample worlds\<close>

text \<open>
  The end-to-end scenario of the specification: \<open>scandata.csv\<close> exists locally,
  \<open>obj_click_log.csv\<close> does not, and the remote folder is empty.
\<close>

definition demo_world :: "store world" where
  "demo_world =
     \<lparr>files = [''credentials.json'' \<mapsto> Readable ''key'',
               ''/opt/deploy_dashboard/data/scandata.csv'' \<mapsto> Readable ''a,b''],
      remote = [], trace = []\<rparr>"

definition demo_environ :: "string \<rightharpoonup> string" where
  "demo_environ = [''GOOGLE_DRIVE_FOLDER_ID'' \<mapsto> ''F1'']"

text \<open>The same machine without its key file.\<close>

definition keyless_world :: "store world" where
  "keyless_world =
     \<lparr>files = [''/opt/deploy_dashboard/data/scandata.csv'' \<mapsto> Readable ''a,b''],
      remote = [], trace = []\<rparr>"

text \<open>A stub answer: the folder already holds one object, with identifier \<open>i\<close>.\<close>

definition answer_found :: "string \<Rightarrow> api_request \<Rightarrow> api_error + api_response" where
  "answer_found i rq =
     (case rq of
        FilesList _ _ \<Rightarrow> Inr [(''files'', JArr [[(''id'', i), (''name'', ''scandata.csv'')]])]
      | _ \<Rightarrow> Inr [(''id'', JStr i)])"

definition local_world :: "unit world" where
  "local_world = \<lparr>files = [''/data/scandata.csv'' \<mapsto> Readable ''a,b''], remote = (), trace = []\<rparr>"

text \<open>A stub answer: the service is down and every request is refused.\<close>

definition answer_down :: "api_request \<Rightarrow> api_error + api_response" where
  "answer_down rq = Inl (HttpError 503)"

text \<open>A machine on which the path exists and cannot be opened.\<close>

definition locked_local :: "unit world" where
  "locked_local = \<lparr>files = [''/data/scandata.csv'' \<mapsto> Unreadable], remote = (), trace = []\<rparr>"


text \<open>A machine on which the first listed file is missing and the second exists.\<close>

definition late_world :: "store world" where
  "late_world =
     \<lparr>files = [''credentials.json'' \<mapsto> Readable ''key'',
               ''/opt/deploy_dashboard/data/obj_click_log.csv'' \<mapsto> Readable ''c,d''],
      remote = [], trace = []\<rparr>"

text \<open>A stub answer: the folder is empty and every write is refused (quota).\<close>

definition answer_quota :: "api_request \<Rightarrow> api_error + api_response" where
  "answer_quota rq =
     (case rq of FilesList _ _ \<Rightarrow> Inr [(''files'', JArr [])] | _ \<Rightarrow> Inl (HttpError 403))"

definition full_world :: "unit world" where
  "full_world =
     \<lparr>files = [''credentials.json'' \<mapsto> Readable ''key'',
               ''/opt/deploy_dashboard/data/scandata.csv'' \<mapsto> Readable ''a,b'',
               ''/opt/deploy_dashboard/data/obj_click_log.csv'' \<mapsto> Readable ''c,d''],
      remote = (), trace = []\<rparr>"

text \<open>A folder with a trashed namesake, a namesake elsewhere, a name differing in case, and
  two live objects of the same name.\<close>

definition remote_csv :: "string \<Rightarrow> string \<Rightarrow> string \<Rightarrow> bool \<Rightarrow> remote_object" where
  "remote_csv i n f t =
     \<lparr>ro_id = i, ro_name = n, ro_parents = [f], ro_trashed = t, ro_mime = ''text/csv'',
      ro_bytes = ''old''\<rparr>"

definition busy_store :: store where
  "busy_store =
     [remote_csv ''T'' ''scandata.csv'' ''F1'' True,
      remote_csv ''O'' ''scandata.csv'' ''F2'' False,
      remote_csv ''C'' ''Scandata.csv'' ''F1'' False,
      remote_csv ''A'' ''scandata.csv'' ''F1'' False,
      remote_csv ''B'' ''scandata.csv'' ''F1'' False]"

definition apostrophe_name :: string where
  "apostrophe_name = ''it'' @ [quote] @ ''s.csv''"

definition apostrophe_store :: store where
  "apostrophe_store = [remote_csv ''X'' apostrophe_name ''F1'' False]"


definition busy_world :: "store world" where
  "busy_world =
     \<lparr>files = [''/data/scandata.csv'' \<mapsto> Readable ''a,b''], remote = busy_store, trace = []\<rparr>"

section \<open>Auxiliary notions for the proofs\<close>

text \<open>A world whose trace has an earlier history \<open>t\<close> in front.\<close>

definition prepend :: "event list \<Rightarrow> 'r world \<Rightarrow> 'r world" where
  "prepend t w = w\<lparr>trace := t @ trace w\<rparr>"

text \<open>An event that is not a write, or is a write declaring \<open>text/csv\<close>.\<close>

fun csv_event :: "event \<Rightarrow> bool" where
  "csv_event (Execute rq _) = (is_write rq \<longrightarrow> declared_type rq = Some ''text/csv'')"
| "csv_event _ = True"

text \<open>
  What a function may have added to the trace, given what it returned: either no call
  failed, or the call that failed is the last event and its error is what was returned.
\<close>

definition fatal_shape :: "exn + 'a \<Rightarrow> event list \<Rightarrow> bool" where
  "fatal_shape res evs =
     (\<not> list_ex failed evs
      \<or> (\<exists>pre rq e. res = Inl (ApiError e) \<and> evs = pre @ [Execute rq (Some e)]
            \<and> \<not> list_ex failed pre))"

text \<open>The exit code that the interpreter gives to an outcome of \<open>main\<close>.\<close>

fun exit_code :: "exn + unit \<Rightarrow> int" where
  "exit_code (Inr _) = 0"
| "exit_code (Inl (SystemExit n)) = n"
| "exit_code (Inl _) = 1"

text \<open>The world with an empty trace.\<close>

definition fresh_trace :: "'r world \<Rightarrow> 'r world" where
  "fresh_trace w = w\<lparr>trace := []\<rparr>"


text \<open>The media object that \<open>upload_file\<close> builds for a path and its bytes.\<close>

definition csv_media :: "string \<Rightarrow> string \<Rightarrow> media_upload" where
  "csv_media p b = \<lparr>mu_filename = p, mu_mimetype = ''text/csv'', mu_bytes = b\<rparr>"

section \<open>Basic facts\<close>

lemma trace_emit: "trace (emit e w) = trace w @ [e]"
  by (simp add: emit_def)

lemma files_emit: "files (emit e w) = files w"
  by (simp add: emit_def)

lemma remote_emit: "remote (emit e w) = remote w"
  by (simp add: emit_def)

lemma requests_append: "requests (xs @ ys) = requests xs @ requests ys"
  by (induction xs rule: requests.induct) auto

lemma requests_set: "rq \<in> set (requests evs) \<longleftrightarrow> (\<exists>oc. Execute rq oc \<in> set evs)"
  by (induction evs rule: requests.induct) auto

lemma new_events_append: "trace w' = trace w @ evs \<Longrightarrow> new_events w w' = evs"
  by (simp add: new_events_def)

subsection \<open>The functions only add to the trace\<close>

lemma emit_prepend: "emit e (prepend t w) = prepend t (emit e w)"
  by (simp add: emit_def prepend_def)

lemma files_prepend: "files (prepend t w) = files w"
  by (simp add: prepend_def)

lemma remote_prepend: "remote (prepend t w) = remote w"
  by (simp add: prepend_def)

lemma trace_prepend: "trace (prepend t w) = t @ trace w"
  by (simp add: prepend_def)

lemma prepend_fresh_trace: "prepend (trace w) (fresh_trace w) = w"
  by (simp add: prepend_def fresh_trace_def)

lemma prepend_emit_fresh_trace: "prepend (trace w @ [e]) (fresh_trace w) = emit e w"
  by (simp add: prepend_def fresh_trace_def emit_def)

lemma call_prepend: "call cl s rq (prepend t w) = apsnd (prepend t) (call cl s rq w)"
  by (auto simp: call_def prepend_def emit_def split: prod.splits sum.splits)

lemma find_prepend:
  "find_file_in_folder cl s fn fid (prepend t w) =
     apsnd (prepend t) (find_file_in_folder cl s fn fid w)"
  by (auto simp: find_file_in_folder_def call_prepend
           split: prod.splits sum.splits jvalue.splits list.splits option.splits)

lemma upload_file_prepend:
  "upload_file cl F s p (prepend t w) = apsnd (prepend t) (upload_file cl F s p w)"
  by (auto simp: upload_file_def find_prepend call_prepend emit_prepend files_prepend Let_def
           split: prod.splits sum.splits option.splits node.splits)

lemma upload_all_prepend:
  "upload_all cl F s ps (prepend t w) = apsnd (prepend t) (upload_all cl F s ps w)"
  by (induction ps arbitrary: w) (auto simp: upload_file_prepend split: prod.splits sum.splits)

lemma upload_all_from_fresh:
  "upload_all cl F s ps w = apsnd (prepend (trace w)) (upload_all cl F s ps (fresh_trace w))"
  using upload_all_prepend [of cl F s ps "trace w" "fresh_trace w"]
  by (simp add: prepend_fresh_trace)

lemma upload_all_emit_from_fresh:
  "upload_all cl F s ps (emit e w) =
     apsnd (prepend (trace w @ [e])) (upload_all cl F s ps (fresh_trace w))"
  using upload_all_prepend [of cl F s ps "trace w @ [e]" "fresh_trace w"]
  by (simp add: prepend_emit_fresh_trace)

lemma upload_all_emit:
  "fst (upload_all cl F s ps (emit e w)) = fst (upload_all cl F s ps w)"
  by (simp add: upload_all_emit_from_fresh upload_all_from_fresh [of cl F s ps w])

lemma upload_all_trace:
  "trace (snd (upload_all cl F s ps w)) =
     trace w @ trace (snd (upload_all cl F s ps (fresh_trace w)))"
  by (simp add: upload_all_from_fresh [of cl F s ps w] trace_prepend)

subsection \<open>The local files are only read\<close>

lemma files_call: "files (snd (call cl s rq w)) = files w"
  by (auto simp: call_def emit_def split: prod.splits sum.splits)

lemma files_find: "files (snd (find_file_in_folder cl s fn fid w)) = files w"
  by (auto simp: find_file_in_folder_def call_def emit_def Let_def
           split: prod.splits sum.splits jvalue.splits list.splits option.splits)

lemma files_upload_file: "files (snd (upload_file cl F s p w)) = files w"
  by (auto simp: upload_file_def find_file_in_folder_def call_def emit_def Let_def
           split: prod.splits sum.splits jvalue.splits list.splits option.splits node.splits)

lemma files_upload_all: "files (snd (upload_all cl F s ps w)) = files w"
proof (induction ps arbitrary: w)
  case Nil
  show ?case by simp
next
  case (Cons p ps)
  show ?case
  proof (cases "upload_file cl F s p w")
    case (Pair res w')
    have f: "files w' = files w"
      using files_upload_file [of cl F s p w] Pair by simp
    show ?thesis
      using Pair f Cons.IH [of w'] by (cases res) simp_all
  qed
qed

lemma files_authenticate: "files (snd (authenticate cl w)) = files w"
  by (auto simp: authenticate_def emit_def Let_def split: option.splits sum.splits node.splits)

subsection \<open>The loop\<close>

lemma upload_all_append:
  "upload_all cl F s (xs @ ys) w =
     (case upload_all cl F s xs w of
        (Inl e, w') \<Rightarrow> (Inl e, w')
      | (Inr u, w') \<Rightarrow> upload_all cl F s ys w')"
  by (induction xs arbitrary: w) (auto split: prod.splits sum.splits)

lemma upload_all_skip:
  "files w p = None \<Longrightarrow>
   upload_all cl F s (p # ps) w = upload_all cl F s ps (emit (Print (MsgSkipMissing p)) w)"
  by (simp add: upload_file_def)

lemma upload_all_existing_only:
  "fst (upload_all cl F s ps w) =
   fst (upload_all cl F s (filter (\<lambda>p. files w p \<noteq> None) ps) w)"
proof (induction ps arbitrary: w)
  case Nil
  show ?case by simp
next
  case (Cons p ps)
  show ?case
  proof (cases "files w p")
    case None
    have "fst (upload_all cl F s (p # ps) w) = fst (upload_all cl F s ps w)"
      by (simp only: upload_all_skip [OF None] upload_all_emit)
    moreover have "filter (\<lambda>p. files w p \<noteq> None) (p # ps) = filter (\<lambda>p. files w p \<noteq> None) ps"
      using None by simp
    ultimately show ?thesis
      using Cons.IH [of w] by simp
  next
    case (Some local)
    show ?thesis
    proof (cases "upload_file cl F s p w")
      case (Pair res w')
      have f: "files w' = files w"
        using files_upload_file [of cl F s p w] Pair by simp
      show ?thesis
        using Pair Some f Cons.IH [of w'] by (cases res) simp_all
    qed
  qed
qed

subsection \<open>What each function adds to the trace\<close>

lemma call_trace:
  "trace (snd (call cl s rq w)) =
     trace w @ [Execute rq (case fst (call cl s rq w) of Inl e \<Rightarrow> Some e | Inr _ \<Rightarrow> None)]"
  by (auto simp: call_def emit_def split: prod.splits sum.splits)

lemma find_trace:
  "trace (snd (find_file_in_folder cl s fn fid w)) =
     trace w @ [Execute (FilesList (build_query fn fid) ''files(id, name)'')
                  (case fst (execute cl s (FilesList (build_query fn fid) ''files(id, name)'')
                               (remote w)) of Inl e \<Rightarrow> Some e | Inr _ \<Rightarrow> None)]"
  by (auto simp: find_file_in_folder_def call_def emit_def Let_def
           split: prod.splits sum.splits jvalue.splits list.splits option.splits)

lemma upload_file_begins:
  assumes "files w p \<noteq> None"
  shows "\<exists>more. trace (snd (upload_file cl F s p w)) =
           trace w @ [Print (MsgProcessing (basename p)),
                      Execute (FilesList (build_query (basename p) F) ''files(id, name)'')
                        (case fst (execute cl s
                                     (FilesList (build_query (basename p) F) ''files(id, name)'')
                                     (remote w)) of Inl e \<Rightarrow> Some e | Inr _ \<Rightarrow> None)] @ more"
proof -
  obtain local where l: "files w p = Some local"
    using assms by auto
  let ?w1 = "emit (Print (MsgProcessing (basename p))) w"
  obtain res w2 where f: "find_file_in_folder cl s (basename p) F ?w1 = (res, w2)"
    by (cases "find_file_in_folder cl s (basename p) F ?w1")
  have t2: "trace w2 = trace w @ [Print (MsgProcessing (basename p)),
                      Execute (FilesList (build_query (basename p) F) ''files(id, name)'')
                        (case fst (execute cl s
                                     (FilesList (build_query (basename p) F) ''files(id, name)'')
                                     (remote w)) of Inl e \<Rightarrow> Some e | Inr _ \<Rightarrow> None)]"
    using find_trace [of cl s "basename p" F ?w1] f by (simp add: emit_def)
  have "\<exists>more. trace (snd (upload_file cl F s p w)) = trace w2 @ more"
    using l f
    by (auto simp: upload_file_def Let_def call_def emit_def
             split: prod.splits sum.splits node.splits)
  then show ?thesis
    using t2 by auto
qed

subsection \<open>The reference store\<close>

lemma strip_prefix_append: "strip_prefix p (p @ s) = Some s"
  by (induction p) auto

lemma read_literal_plain: "plain s \<Longrightarrow> read_literal (s @ quote # r) = Some (s, r)"
  by (induction s) (auto simp: plain_def)

lemma parse_query_build:
  assumes "plain fn" "plain fid"
  shows "parse_query (build_query fn (Some fid)) = Some (fn, fid)"
proof -
  have "build_query fn (Some fid) =
          (''name = '' @ [quote]) @ fn @ quote # (('' and '' @ [quote]) @ fid @ quote #
             '' in parents and trashed = false'')"
    by (simp add: build_query_def)
  then show ?thesis
    using assms
    by (simp only: parse_query_def strip_prefix_append read_literal_plain option.case
                   prod.case if_True refl)
qed

lemma find_drive_plain:
  assumes "plain filename" and "plain folder_id"
  shows "find_file_in_folder drive service filename (Some folder_id) w =
           (Inr (first_match (remote w) filename folder_id),
            emit (Execute (FilesList (build_query filename (Some folder_id))
                             ''files(id, name)'') None) w)"
  by (cases "filter (matches filename folder_id) (remote w)")
     (simp_all add: find_file_in_folder_def call_def drive_def parse_query_build [OF assms]
                    get_files_def emit_def Let_def first_match_def entry_of_def)

lemma call_drive:
  "call drive s rq w =
     (case drive_execute s rq (remote w) of
        (Inl e, r') \<Rightarrow> (Inl e, (emit (Execute rq (Some e)) w)\<lparr>remote := r'\<rparr>)
      | (Inr res, r') \<Rightarrow> (Inr res, (emit (Execute rq None) w)\<lparr>remote := r'\<rparr>))"
  by (simp add: call_def drive_def)

lemma drive_loads:
  "from_service_account_file drive key scopes = Inr key" "build drive creds = Inr creds"
  by (simp_all add: drive_def)

lemma listed_names:
  "basename ''/opt/deploy_dashboard/data/scandata.csv'' = ''scandata.csv''"
  "basename ''/opt/deploy_dashboard/data/obj_click_log.csv'' = ''obj_click_log.csv''"
  "plain ''scandata.csv''" "plain ''obj_click_log.csv''" "plain ''F1''"
  by (simp_all add: basename_def plain_def quote_def backslash_def)

section \<open>A missing local file\<close>

lemma run_exit_code:
  "fst (run cl environ w) = exit_code (fst (main cl (environ ''GOOGLE_DRIVE_FOLDER_ID'') w))"
  by (auto simp: run_def split: prod.splits sum.splits exn.splits)

lemma main_outcome:
  assumes "truthy F" "authenticate cl (emit (Print MsgStart) w) = (Inr svc, w2)"
  shows "exit_code (fst (main cl F w)) = exit_code (fst (upload_all cl F svc FILES_TO_UPLOAD w2))"
  using assms by (auto simp: main_def split: prod.splits sum.splits)

lemma skip_anywhere:
  assumes "files w p = None"
  shows "fst (upload_all cl F s (pre @ p # post) w) = fst (upload_all cl F s (pre @ post) w)
       \<and> remote (snd (upload_all cl F s (pre @ p # post) w))
           = remote (snd (upload_all cl F s (pre @ post) w))
       \<and> requests (new_events w (snd (upload_all cl F s (pre @ p # post) w)))
           = requests (new_events w (snd (upload_all cl F s (pre @ post) w)))"
proof (cases "upload_all cl F s pre w")
  case (Pair res w')
  show ?thesis
  proof (cases res)
    case (Inl x)
    with Pair show ?thesis by (simp add: upload_all_append)
  next
    case (Inr u)
    have f: "files w' p = None"
      using files_upload_all [of cl F s pre w] Pair assms by simp
    obtain evs where t: "trace w' = trace w @ evs"
      using upload_all_trace [of cl F s pre w] Pair by simp
    let ?R = "upload_all cl F s post (fresh_trace w')"
    have a: "upload_all cl F s (pre @ p # post) w =
               apsnd (prepend (trace w' @ [Print (MsgSkipMissing p)])) ?R"
      using Pair Inr
      by (simp only: upload_all_append prod.case sum.case upload_all_skip [OF f]
                     upload_all_emit_from_fresh)
    have b: "upload_all cl F s (pre @ post) w = apsnd (prepend (trace w')) ?R"
      using Pair Inr upload_all_from_fresh [of cl F s post w']
      by (simp only: upload_all_append prod.case sum.case)
    show ?thesis
      unfolding a b
      by (simp add: remote_prepend trace_prepend new_events_def t requests_append)
  qed
qed

text \<open>
  C4. When the local path does not exist, \<open>upload_file\<close> returns normally and has done
  nothing but print the line saying that the path is skipped: no list, no create, no
  update. The loop then hands the next path of the list to \<open>upload_file\<close>, and when that
  path exists the next things the loop does are the processing line and the list call
  for it. Wherever the missing path stands in the list, the loop ends as it would without
  it: the same outcome, the same remote state and the same requests. The exit code of a
  run that reaches the loop is the one decided by the listed files that exist, so it is
  zero when the uploads of those files do not fail.
\<close>

theorem C4_missing_local_file_is_skipped:
  assumes "files w filepath = None"
  shows "upload_file cl FOLDER_ID service filepath w =
           (Inr (), emit (Print (MsgSkipMissing filepath)) w)
       \<and> upload_all cl FOLDER_ID service (filepath # following # rest) w =
           (case upload_file cl FOLDER_ID service following
                   (emit (Print (MsgSkipMissing filepath)) w) of
              (Inl e, w') \<Rightarrow> (Inl e, w')
            | (Inr u, w') \<Rightarrow> upload_all cl FOLDER_ID service rest w')
       \<and> (files w following \<noteq> None \<longrightarrow>
            take 3 (new_events w
                      (snd (upload_all cl FOLDER_ID service (filepath # following # rest) w)))
            = [Print (MsgSkipMissing filepath),
               Print (MsgProcessing (basename following)),
               Execute (FilesList (build_query (basename following) FOLDER_ID)
                          ''files(id, name)'')
                 (case fst (execute cl service
                              (FilesList (build_query (basename following) FOLDER_ID)
                                 ''files(id, name)'') (remote w)) of
                    Inl e \<Rightarrow> Some e | Inr _ \<Rightarrow> None)])
       \<and> fst (upload_all cl FOLDER_ID service (pre @ filepath # post) w)
           = fst (upload_all cl FOLDER_ID service (pre @ post) w)
       \<and> remote (snd (upload_all cl FOLDER_ID service (pre @ filepath # post) w))
           = remote (snd (upload_all cl FOLDER_ID service (pre @ post) w))
       \<and> requests (new_events w (snd (upload_all cl FOLDER_ID service (pre @ filepath # post) w)))
           = requests (new_events w (snd (upload_all cl FOLDER_ID service (pre @ post) w)))
       \<and> (truthy (environ ''GOOGLE_DRIVE_FOLDER_ID'')
            \<and> authenticate cl (emit (Print MsgStart) w) = (Inr handle, w2) \<longrightarrow>
            fst (run cl environ w)
            = exit_code (fst (upload_all cl (environ ''GOOGLE_DRIVE_FOLDER_ID'') handle
                               (filter (\<lambda>p. files w p \<noteq> None) FILES_TO_UPLOAD) w2)))
       \<and> (truthy (environ ''GOOGLE_DRIVE_FOLDER_ID'')
            \<and> authenticate cl (emit (Print MsgStart) w) = (Inr handle, w2)
            \<and> fst (upload_all cl (environ ''GOOGLE_DRIVE_FOLDER_ID'') handle
                     (filter (\<lambda>p. files w p \<noteq> None) FILES_TO_UPLOAD) w2) = Inr () \<longrightarrow>
            fst (run cl environ w) = 0)"
proof -
  let ?skip = "emit (Print (MsgSkipMissing filepath)) w"
  have one: "upload_file cl FOLDER_ID service filepath w = (Inr (), ?skip)"
    using assms by (simp add: upload_file_def)
  have two: "upload_all cl FOLDER_ID service (filepath # following # rest) w =
           (case upload_file cl FOLDER_ID service following ?skip of
              (Inl e, w') \<Rightarrow> (Inl e, w')
            | (Inr u, w') \<Rightarrow> upload_all cl FOLDER_ID service rest w')"
    by (simp add: one)
  have three: "take 3 (new_events w
                      (snd (upload_all cl FOLDER_ID service (filepath # following # rest) w)))
            = [Print (MsgSkipMissing filepath),
               Print (MsgProcessing (basename following)),
               Execute (FilesList (build_query (basename following) FOLDER_ID)
                          ''files(id, name)'')
                 (case fst (execute cl service
                              (FilesList (build_query (basename following) FOLDER_ID)
                                 ''files(id, name)'') (remote w)) of
                    Inl e \<Rightarrow> Some e | Inr _ \<Rightarrow> None)]"
    if ex: "files w following \<noteq> None"
  proof -
    let ?three = "[Print (MsgSkipMissing filepath),
               Print (MsgProcessing (basename following)),
               Execute (FilesList (build_query (basename following) FOLDER_ID)
                          ''files(id, name)'')
                 (case fst (execute cl service
                              (FilesList (build_query (basename following) FOLDER_ID)
                                 ''files(id, name)'') (remote w)) of
                    Inl e \<Rightarrow> Some e | Inr _ \<Rightarrow> None)]"
    obtain res w' where u: "upload_file cl FOLDER_ID service following ?skip = (res, w')"
      by (cases "upload_file cl FOLDER_ID service following ?skip")
    obtain more where m: "trace w' = trace w @ ?three @ more"
      using upload_file_begins [of ?skip following cl FOLDER_ID service] ex u
      by (auto simp: emit_def)
    have "\<exists>more'. trace (snd (upload_all cl FOLDER_ID service (filepath # following # rest) w))
            = trace w @ ?three @ more'"
    proof (cases res)
      case (Inl x)
      then show ?thesis using two u m by auto
    next
      case (Inr v)
      then have "trace (snd (upload_all cl FOLDER_ID service (filepath # following # rest) w))
          = trace w' @ trace (snd (upload_all cl FOLDER_ID service rest (fresh_trace w')))"
        using two u upload_all_trace [of cl FOLDER_ID service rest w'] by simp
      then show ?thesis using m by auto
    qed
    then show ?thesis
      by (auto simp: new_events_def)
  qed
  have seven: "fst (run cl environ w)
            = exit_code (fst (upload_all cl (environ ''GOOGLE_DRIVE_FOLDER_ID'') handle
                               (filter (\<lambda>p. files w p \<noteq> None) FILES_TO_UPLOAD) w2))"
    if t: "truthy (environ ''GOOGLE_DRIVE_FOLDER_ID'')"
      and a: "authenticate cl (emit (Print MsgStart) w) = (Inr handle, w2)"
  proof -
    have f: "files w2 = files w"
      using files_authenticate [of cl "emit (Print MsgStart) w"] a by (simp add: files_emit)
    show ?thesis
      using main_outcome [OF t a]
        upload_all_existing_only [of cl "environ ''GOOGLE_DRIVE_FOLDER_ID''" handle
          FILES_TO_UPLOAD w2]
      by (simp add: run_exit_code f)
  qed
  have eight: "fst (run cl environ w) = 0"
    if "truthy (environ ''GOOGLE_DRIVE_FOLDER_ID'')"
      and "authenticate cl (emit (Print MsgStart) w) = (Inr handle, w2)"
      and "fst (upload_all cl (environ ''GOOGLE_DRIVE_FOLDER_ID'') handle
                     (filter (\<lambda>p. files w p \<noteq> None) FILES_TO_UPLOAD) w2) = Inr ()"
    using seven [OF that(1,2)] that(3) by simp
  show ?thesis
    using one two three skip_anywhere [OF assms, of cl FOLDER_ID service pre post] seven eight
    by blast
qed

lemma late_run:
  "run drive demo_environ late_world =
     (0, late_world\<lparr>trace :=
           [Print MsgStart, LoadKey ''credentials.json'' SCOPES, Build ''key'',
            Print (MsgSkipMissing ''/opt/deploy_dashboard/data/scandata.csv''),
            Print (MsgProcessing ''obj_click_log.csv''),
            Execute (FilesList (build_query ''obj_click_log.csv'' (Some ''F1''))
                       ''files(id, name)'') None,
            Print MsgCreating,
            Execute (FilesCreate
                       (Some \<lparr>md_name = ''obj_click_log.csv'', md_parents = [Some ''F1'']\<rparr>)
                       (csv_media ''/opt/deploy_dashboard/data/obj_click_log.csv'' ''c,d'')
                       ''id'') None,
            Print (MsgCreated ''obj_click_log.csv''),
            Print MsgAllDone],
         remote := [\<lparr>ro_id = ''n'', ro_name = ''obj_click_log.csv'', ro_parents = [''F1''],
                     ro_trashed = False, ro_mime = ''text/csv'', ro_bytes = ''c,d''\<rparr>]\<rparr>)"
proof -
  have f: "fresh_id [] = ''n''"
    by (simp add: fresh_id_def)
  show ?thesis
    by (simp add: run_def main_def authenticate_def upload_file_def listed_names
                  find_drive_plain [OF listed_names(4,5)]
                  call_drive Let_def late_world_def demo_environ_def emit_def f drive_loads
                  CREDENTIALS_FILE_def FILES_TO_UPLOAD_def first_match_def csv_media_def)
qed

theorem C4_witness:
  "files late_world ''/opt/deploy_dashboard/data/scandata.csv'' = None
   \<and> files late_world ''/opt/deploy_dashboard/data/obj_click_log.csv'' = Some (Readable ''c,d'')
   \<and> take 3 (new_events late_world
               (snd (upload_all drive (Some ''F1'') ''key''
                       [''/opt/deploy_dashboard/data/scandata.csv'',
                        ''/opt/deploy_dashboard/data/obj_click_log.csv''] late_world)))
     = [Print (MsgSkipMissing ''/opt/deploy_dashboard/data/scandata.csv''),
        Print (MsgProcessing ''obj_click_log.csv''),
        Execute (FilesList (build_query ''obj_click_log.csv'' (Some ''F1''))
                   ''files(id, name)'') None]
   \<and> fst (run drive demo_environ late_world) = 0"
proof -
  have h: "files late_world ''/opt/deploy_dashboard/data/scandata.csv'' = None"
    by (simp add: late_world_def)
  have e: "files late_world ''/opt/deploy_dashboard/data/obj_click_log.csv''
             = Some (Readable ''c,d'')"
    by (simp add: late_world_def)
  have l: "fst (execute drive ''key''
                  (FilesList (build_query ''obj_click_log.csv'' (Some ''F1'')) ''files(id, name)'')
                  (remote late_world)) = Inr [(''files'', JArr [])]"
    by (simp add: drive_def parse_query_build [OF listed_names(4,5)] late_world_def)
  note t = C4_missing_local_file_is_skipped
      [OF h, where cl = drive and FOLDER_ID = "Some ''F1''" and service = "''key''"
         and following = "''/opt/deploy_dashboard/data/obj_click_log.csv''" and rest = "[]"
         and pre = "[]" and post = "[]" and environ = demo_environ and handle = "''key''"
         and ?w2.0 = late_world]
  from t have "files late_world ''/opt/deploy_dashboard/data/obj_click_log.csv'' \<noteq> None \<longrightarrow>
      take 3 (new_events late_world
               (snd (upload_all drive (Some ''F1'') ''key''
                       [''/opt/deploy_dashboard/data/scandata.csv'',
                        ''/opt/deploy_dashboard/data/obj_click_log.csv''] late_world)))
     = [Print (MsgSkipMissing ''/opt/deploy_dashboard/data/scandata.csv''),
        Print (MsgProcessing (basename ''/opt/deploy_dashboard/data/obj_click_log.csv'')),
        Execute (FilesList (build_query (basename ''/opt/deploy_dashboard/data/obj_click_log.csv'')
                              (Some ''F1'')) ''files(id, name)'')
          (case fst (execute drive ''key''
                       (FilesList (build_query
                            (basename ''/opt/deploy_dashboard/data/obj_click_log.csv'')
                            (Some ''F1'')) ''files(id, name)'') (remote late_world)) of
             Inl e \<Rightarrow> Some e | Inr _ \<Rightarrow> None)]"
    by blast
  then have t3: "take 3 (new_events late_world
               (snd (upload_all drive (Some ''F1'') ''key''
                       [''/opt/deploy_dashboard/data/scandata.csv'',
                        ''/opt/deploy_dashboard/data/obj_click_log.csv''] late_world)))
     = [Print (MsgSkipMissing ''/opt/deploy_dashboard/data/scandata.csv''),
        Print (MsgProcessing ''obj_click_log.csv''),
        Execute (FilesList (build_query ''obj_click_log.csv'' (Some ''F1''))
                   ''files(id, name)'') None]"
    using e by (simp only: listed_names l) simp
  have z: "fst (run drive demo_environ late_world) = 0"
    by (simp add: late_run)
  show ?thesis
    using h e t3 z by blast
qed

section \<open>The folder identifier is checked first\<close>

text \<open>
  C3. When the environment variable \<open>GOOGLE_DRIVE_FOLDER_ID\<close> is unset or empty, the
  process exits with code 1, and all it has done is print the line that asks for the
  variable: the key file is not parsed, no service is built, no request is executed, and
  the remote is untouched.
\<close>

theorem C3_unset_folder_exits_before_network:
  assumes "environ ''GOOGLE_DRIVE_FOLDER_ID'' = None
           \<or> environ ''GOOGLE_DRIVE_FOLDER_ID'' = Some []"
  shows "run cl environ w = (1, emit (Print MsgSetFolderEnv) w)
       \<and> fst (run cl environ w) \<noteq> 0
       \<and> new_events w (snd (run cl environ w)) = [Print MsgSetFolderEnv]
       \<and> remote (snd (run cl environ w)) = remote w"
proof -
  have "\<not> truthy (environ ''GOOGLE_DRIVE_FOLDER_ID'')"
    using assms by auto
  then have r: "run cl environ w = (1, emit (Print MsgSetFolderEnv) w)"
    by (simp add: run_def main_def)
  show ?thesis
    unfolding r by (simp add: new_events_def trace_emit remote_emit)
qed

theorem C3_witness:
  "(Map.empty ''GOOGLE_DRIVE_FOLDER_ID'' = None
      \<or> Map.empty ''GOOGLE_DRIVE_FOLDER_ID'' = Some [])
   \<and> fst (run drive Map.empty demo_world) = 1
   \<and> filter is_network (trace (snd (run drive Map.empty demo_world))) = []"
  using C3_unset_folder_exits_before_network [of Map.empty drive demo_world]
  by (simp add: emit_def demo_world_def)

section \<open>The key file is checked before it is read\<close>

text \<open>
  C5 (amended). When \<open>credentials.json\<close> does not exist, \<open>authenticate\<close> prints the line
  naming that path and raises \<open>SystemExit(1)\<close> without parsing anything. Every run on
  such a machine
  exits with code 1; what it has printed is either the start line and the line naming the
  missing path, or (when the folder variable is unset too, so that \<open>authenticate\<close> is never
  reached) the line asking for the variable. No key is parsed, no request is executed and
  no file task is begun or skipped.
\<close>

theorem C5_missing_credentials_is_fatal:
  assumes "files w CREDENTIALS_FILE = None"
  shows "authenticate cl w =
           (Inl (SystemExit 1), emit (Print (MsgMissingCredentials CREDENTIALS_FILE)) w)
       \<and> run cl environ w =
           (1, if truthy (environ ''GOOGLE_DRIVE_FOLDER_ID'')
               then emit (Print (MsgMissingCredentials CREDENTIALS_FILE))
                      (emit (Print MsgStart) w)
               else emit (Print MsgSetFolderEnv) w)
       \<and> fst (run cl environ w) \<noteq> 0
       \<and> filter is_network (new_events w (snd (run cl environ w))) = []"
proof -
  have a: "\<And>v. files v CREDENTIALS_FILE = None \<Longrightarrow> authenticate cl v =
           (Inl (SystemExit 1), emit (Print (MsgMissingCredentials CREDENTIALS_FILE)) v)"
    by (simp add: authenticate_def)
  have r: "run cl environ w =
           (1, if truthy (environ ''GOOGLE_DRIVE_FOLDER_ID'')
               then emit (Print (MsgMissingCredentials CREDENTIALS_FILE))
                      (emit (Print MsgStart) w)
               else emit (Print MsgSetFolderEnv) w)"
    using assms by (simp add: run_def main_def a files_emit)
  show ?thesis
    unfolding r using assms by (simp add: a new_events_def trace_emit)
qed

theorem C5_witness:
  "files keyless_world CREDENTIALS_FILE = None
   \<and> run drive demo_environ keyless_world =
       (1, keyless_world\<lparr>trace :=
             [Print MsgStart, Print (MsgMissingCredentials ''credentials.json'')]\<rparr>)"
  using C5_missing_credentials_is_fatal [of keyless_world drive demo_environ]
  by (simp add: emit_def keyless_world_def demo_environ_def CREDENTIALS_FILE_def)

text \<open>
  The claim as first stated has the diagnostic naming the missing path printed in every
  run without the key file. On a machine where the folder variable is unset as well,
  \<open>main\<close> exits at line 82, \<open>authenticate\<close> is never called and the only line printed is the
  one asking for the variable.
\<close>

theorem C5_counterexample:
  "files keyless_world CREDENTIALS_FILE = None
   \<and> Map.empty ''GOOGLE_DRIVE_FOLDER_ID'' = (None :: string option)
   \<and> run drive Map.empty keyless_world = (1, keyless_world\<lparr>trace := [Print MsgSetFolderEnv]\<rparr>)
   \<and> Print (MsgMissingCredentials CREDENTIALS_FILE)
         \<notin> set (trace (snd (run drive Map.empty keyless_world)))"
  by (simp add: run_def main_def emit_def keyless_world_def CREDENTIALS_FILE_def)

section \<open>The Locator and the shape of the response\<close>

text \<open>
  C10. When the list call returns a dictionary that has no \<open>files\<close> key, or whose \<open>files\<close>
  is the empty list, \<open>find_file_in_folder\<close> returns \<open>None\<close> and raises nothing.
\<close>

theorem C10_locator_total_on_missing_files_key:
  assumes "execute cl service (FilesList (build_query filename folder_id) ''files(id, name)'')
             (remote w) = (Inr results, r')"
      and "map_of results ''files'' = None \<or> map_of results ''files'' = Some (JArr [])"
  shows "fst (find_file_in_folder cl service filename folder_id w) = Inr None"
  using assms by (auto simp: find_file_in_folder_def call_def get_files_def)

theorem C10_witness:
  "fst (find_file_in_folder (stub (\<lambda>rq. Inr [])) ''svc'' ''scandata.csv'' (Some ''F1'')
          \<lparr>files = Map.empty, remote = (), trace = []\<rparr>) = Inr None"
  using C10_locator_total_on_missing_files_key
    [of "stub (\<lambda>rq. Inr [])" "''svc''" "''scandata.csv''" "Some ''F1''"
        "\<lparr>files = Map.empty, remote = (), trace = []\<rparr>" "[]" "()"]
  by (simp add: stub_def)

section \<open>Create or update\<close>

lemma upload_file_writes:
  assumes "files w filepath = Some (Readable bytes)"
      and "find_file_in_folder cl service (basename filepath) FOLDER_ID
             (emit (Print (MsgProcessing (basename filepath))) w) = (Inr file_id, w2)"
  shows "filter is_write (requests (new_events w (snd (upload_file cl FOLDER_ID service filepath w))))
         = [if truthy file_id
            then FilesUpdate (the file_id) None (csv_media filepath bytes) ''id''
            else FilesCreate (Some \<lparr>md_name = basename filepath, md_parents = [FOLDER_ID]\<rparr>)
                   (csv_media filepath bytes) ''id'']"
proof -
  obtain oc where t2: "trace w2 = trace w @ [Print (MsgProcessing (basename filepath)),
      Execute (FilesList (build_query (basename filepath) FOLDER_ID) ''files(id, name)'') oc]"
    using find_trace [of cl service "basename filepath" FOLDER_ID
        "emit (Print (MsgProcessing (basename filepath))) w"] assms(2)
    by (simp add: emit_def)
  show ?thesis
    using assms t2
    by (auto simp: upload_file_def Let_def call_def emit_def new_events_def requests_append
                   csv_media_def
             split: prod.splits sum.splits)
qed

text \<open>
  C1 (amended). For a local file that exists and can be opened, and a Locator that
  returned, \<open>upload_file\<close> issues exactly one write. When the Locator returned an
  identifier \<open>X\<close> (a non-empty string) the write is an update of \<open>X\<close>, with no metadata
  body. When the Locator returned \<open>None\<close>, the write is a create whose metadata names the
  base name of the path and has \<open>FOLDER_ID\<close> as its only parent.
\<close>

theorem C1_one_write_per_existing_file:
  assumes "files w filepath = Some (Readable bytes)"
      and "find_file_in_folder cl service (basename filepath) FOLDER_ID
             (emit (Print (MsgProcessing (basename filepath))) w) = (Inr file_id, w2)"
  shows "(\<forall>X. file_id = Some X \<and> X \<noteq> [] \<longrightarrow>
            filter is_write (requests (new_events w (snd (upload_file cl FOLDER_ID service filepath w))))
            = [FilesUpdate X None
                 \<lparr>mu_filename = filepath, mu_mimetype = ''text/csv'', mu_bytes = bytes\<rparr> ''id''])
       \<and> (file_id = None \<longrightarrow>
            filter is_write (requests (new_events w (snd (upload_file cl FOLDER_ID service filepath w))))
            = [FilesCreate (Some \<lparr>md_name = basename filepath, md_parents = [FOLDER_ID]\<rparr>)
                 \<lparr>mu_filename = filepath, mu_mimetype = ''text/csv'', mu_bytes = bytes\<rparr> ''id''])"
  using upload_file_writes [OF assms] by (auto simp: csv_media_def)

theorem C1_witness:
  "filter is_write (requests (new_events local_world
      (snd (upload_file (stub (answer_found ''X1'')) (Some ''F1'') ''svc'' ''/data/scandata.csv''
              local_world))))
   = [FilesUpdate ''X1'' None
        \<lparr>mu_filename = ''/data/scandata.csv'', mu_mimetype = ''text/csv'', mu_bytes = ''a,b''\<rparr>
        ''id'']"
proof -
  have h1: "files local_world ''/data/scandata.csv'' = Some (Readable ''a,b'')"
    by (simp add: local_world_def)
  have h2: "find_file_in_folder (stub (answer_found ''X1'')) ''svc''
              (basename ''/data/scandata.csv'') (Some ''F1'')
              (emit (Print (MsgProcessing (basename ''/data/scandata.csv''))) local_world)
            = (Inr (Some ''X1''),
               snd (find_file_in_folder (stub (answer_found ''X1'')) ''svc''
                      (basename ''/data/scandata.csv'') (Some ''F1'')
                      (emit (Print (MsgProcessing (basename ''/data/scandata.csv''))) local_world)))"
    by (simp add: find_file_in_folder_def call_def stub_def answer_found_def get_files_def
                  Let_def)
  show ?thesis
    using C1_one_write_per_existing_file [OF h1 h2] by simp
qed

text \<open>
  The claim as first stated promises one write for every local file that exists. Two
  things come between the test of line 47 and the write. The list call of the Locator
  may raise: then \<open>upload_file\<close> raises the same error and has written nothing. And the
  Locator may return an identifier for a path that exists and cannot be opened: then
  \<open>MediaFileUpload\<close> raises at line 56, after the list call and before the branch, and
  neither update nor create is issued.
\<close>

theorem C1_counterexample:
  "files local_world ''/data/scandata.csv'' = Some (Readable ''a,b'')
   \<and> upload_file (stub answer_down) (Some ''F1'') ''svc'' ''/data/scandata.csv'' local_world
     = (Inl (ApiError (HttpError 503)),
        local_world\<lparr>trace :=
          [Print (MsgProcessing ''scandata.csv''),
           Execute (FilesList (build_query ''scandata.csv'' (Some ''F1'')) ''files(id, name)'')
             (Some (HttpError 503))]\<rparr>)
   \<and> files locked_local ''/data/scandata.csv'' = Some Unreadable
   \<and> fst (find_file_in_folder (stub (answer_found ''X1'')) ''svc'' ''scandata.csv'' (Some ''F1'')
            (emit (Print (MsgProcessing ''scandata.csv'')) locked_local)) = Inr (Some ''X1'')
   \<and> upload_file (stub (answer_found ''X1'')) (Some ''F1'') ''svc'' ''/data/scandata.csv''
       locked_local
     = (Inl (OSError ''/data/scandata.csv''),
        locked_local\<lparr>trace :=
          [Print (MsgProcessing ''scandata.csv''),
           Execute (FilesList (build_query ''scandata.csv'' (Some ''F1'')) ''files(id, name)'')
             None]\<rparr>)"
  by (simp add: upload_file_def find_file_in_folder_def call_def stub_def answer_found_def
                answer_down_def get_files_def Let_def local_world_def locked_local_def
                emit_def basename_def)

section \<open>The declared content type\<close>

lemma upload_file_csv:
  "\<exists>evs. trace (snd (upload_file cl F s p w)) = trace w @ evs \<and> list_all csv_event evs"
  by (auto simp: upload_file_def find_file_in_folder_def call_def emit_def Let_def
           split: prod.splits sum.splits jvalue.splits list.splits option.splits node.splits)

lemma upload_all_csv:
  "\<exists>evs. trace (snd (upload_all cl F s ps w)) = trace w @ evs \<and> list_all csv_event evs"
proof (induction ps arbitrary: w)
  case Nil
  show ?case by simp
next
  case (Cons p ps)
  obtain evs1 where e1: "trace (snd (upload_file cl F s p w)) = trace w @ evs1"
      "list_all csv_event evs1"
    using upload_file_csv by blast
  show ?case
  proof (cases "upload_file cl F s p w")
    case (Pair res w')
    show ?thesis
    proof (cases res)
      case (Inl x)
      with Pair e1 show ?thesis by auto
    next
      case (Inr u)
      obtain evs2 where e2: "trace (snd (upload_all cl F s ps w')) = trace w' @ evs2"
          "list_all csv_event evs2"
        using Cons.IH by blast
      from Pair Inr e1 e2 have "trace (snd (upload_all cl F s (p # ps) w)) = trace w @ (evs1 @ evs2)"
        by simp
      moreover have "list_all csv_event (evs1 @ evs2)"
        using e1 e2 by simp
      ultimately show ?thesis by blast
    qed
  qed
qed

lemma authenticate_csv:
  "\<exists>evs. trace (snd (authenticate cl w)) = trace w @ evs \<and> list_all csv_event evs"
  by (auto simp: authenticate_def emit_def Let_def split: option.splits sum.splits node.splits)

lemma main_csv:
  "\<exists>evs. trace (snd (main cl F w)) = trace w @ evs \<and> list_all csv_event evs"
proof (cases "truthy F")
  case False
  then show ?thesis by (simp add: main_def emit_def)
next
  case True
  obtain evs1 where e1: "trace (snd (authenticate cl (emit (Print MsgStart) w))) =
      trace w @ Print MsgStart # evs1" "list_all csv_event evs1"
    using authenticate_csv [of cl "emit (Print MsgStart) w"] by (auto simp: emit_def)
  show ?thesis
  proof (cases "authenticate cl (emit (Print MsgStart) w)")
    case (Pair res w2)
    show ?thesis
    proof (cases res)
      case (Inl x)
      with Pair e1 True have "trace (snd (main cl F w)) = trace w @ (Print MsgStart # evs1)"
        by (simp add: main_def)
      moreover have "list_all csv_event (Print MsgStart # evs1)" using e1 by simp
      ultimately show ?thesis by blast
    next
      case (Inr svc)
      obtain evs2 where e2: "trace (snd (upload_all cl F svc FILES_TO_UPLOAD w2)) = trace w2 @ evs2"
          "list_all csv_event evs2"
        using upload_all_csv by blast
      have "trace (snd (main cl F w)) = trace w @ (Print MsgStart # evs1 @ evs2)
          \<or> trace (snd (main cl F w)) = trace w @ (Print MsgStart # evs1 @ evs2 @ [Print MsgAllDone])"
        using Pair Inr e1 e2 True
        by (auto simp: main_def emit_def split: prod.splits sum.splits)
      moreover have "list_all csv_event (Print MsgStart # evs1 @ evs2)"
          "list_all csv_event (Print MsgStart # evs1 @ evs2 @ [Print MsgAllDone])"
        using e1 e2 by simp_all
      ultimately show ?thesis by blast
    qed
  qed
qed

lemma run_csv:
  "\<exists>evs. trace (snd (run cl environ w)) = trace w @ evs \<and> list_all csv_event evs"
proof -
  obtain evs where e: "trace (snd (main cl (environ ''GOOGLE_DRIVE_FOLDER_ID'') w)) = trace w @ evs"
      "list_all csv_event evs"
    using main_csv by blast
  have "trace (snd (run cl environ w)) = trace w @ evs
      \<or> (\<exists>x. trace (snd (run cl environ w)) = trace w @ (evs @ [Traceback x]))"
    using e by (auto simp: run_def emit_def split: prod.splits sum.splits exn.splits)
  moreover have "\<And>x. list_all csv_event (evs @ [Traceback x])" using e by simp
  ultimately show ?thesis using e by blast
qed

lemma csv_event_requests:
  assumes "list_all csv_event evs" "rq \<in> set (requests evs)" "is_write rq"
  shows "declared_type rq = Some ''text/csv''"
proof -
  obtain oc where "Execute rq oc \<in> set evs"
    using assms(2) requests_set by blast
  with assms(1) have "csv_event (Execute rq oc)"
    by (auto simp: list_all_iff)
  with assms(3) show ?thesis by simp
qed

text \<open>
  C9. Every create and every update that \<open>upload_file\<close> issues, and so every one issued
  in a whole run, declares the content type \<open>text/csv\<close>, whatever the path and the bytes.
\<close>

theorem C9_content_type_is_fixed:
  "(\<forall>rq \<in> set (requests (new_events w (snd (upload_file cl FOLDER_ID service filepath w)))).
      is_write rq \<longrightarrow> declared_type rq = Some ''text/csv'')
   \<and> (\<forall>rq \<in> set (requests (new_events w (snd (run cl environ w)))).
      is_write rq \<longrightarrow> declared_type rq = Some ''text/csv'')"
proof -
  obtain evs1 where e1: "trace (snd (upload_file cl FOLDER_ID service filepath w)) = trace w @ evs1"
      "list_all csv_event evs1"
    using upload_file_csv by blast
  obtain evs2 where e2: "trace (snd (run cl environ w)) = trace w @ evs2" "list_all csv_event evs2"
    using run_csv by blast
  show ?thesis
    using e1 e2 csv_event_requests by (auto simp: new_events_def)
qed

theorem C9_witness:
  "FilesUpdate ''X1'' None
     \<lparr>mu_filename = ''/data/scandata.csv'', mu_mimetype = ''text/csv'', mu_bytes = ''a,b''\<rparr> ''id''
     \<in> set (requests (new_events local_world
          (snd (upload_file (stub (answer_found ''X1'')) (Some ''F1'') ''svc''
                  ''/data/scandata.csv'' local_world))))
   \<and> declared_type (FilesUpdate ''X1'' None
        \<lparr>mu_filename = ''/data/scandata.csv'', mu_mimetype = ''text/csv'', mu_bytes = ''a,b''\<rparr>
        ''id'') = Some ''text/csv''"
proof -
  have m: "FilesUpdate ''X1'' None
     \<lparr>mu_filename = ''/data/scandata.csv'', mu_mimetype = ''text/csv'', mu_bytes = ''a,b''\<rparr> ''id''
     \<in> set (requests (new_events local_world
          (snd (upload_file (stub (answer_found ''X1'')) (Some ''F1'') ''svc''
                  ''/data/scandata.csv'' local_world))))"
    by (simp add: upload_file_def find_file_in_folder_def call_def stub_def answer_found_def
                  get_files_def Let_def local_world_def emit_def basename_def new_events_def)
  show ?thesis
    using m C9_content_type_is_fixed
      [of local_world "stub (answer_found ''X1'')" "Some ''F1''" "''svc''"
          "''/data/scandata.csv''" Map.empty]
    by simp
qed

section \<open>Errors of the remote API\<close>

lemma fatal_shape_Inr: "fatal_shape (Inr v) evs \<Longrightarrow> \<not> list_ex failed evs"
  by (auto simp: fatal_shape_def)

lemma fatal_shape_seq:
  assumes "\<not> list_ex failed evs1" "fatal_shape res evs2"
  shows "fatal_shape res (evs1 @ evs2)"
  using assms unfolding fatal_shape_def
proof (elim disjE exE conjE)
  assume "\<not> list_ex failed evs2"
  with assms(1) show "\<not> list_ex failed (evs1 @ evs2) \<or>
    (\<exists>pre rq e. res = Inl (ApiError e) \<and> evs1 @ evs2 = pre @ [Execute rq (Some e)] \<and> \<not> list_ex failed pre)"
    by simp
next
  fix pre rq e
  assume "res = Inl (ApiError e)" "evs2 = pre @ [Execute rq (Some e)]" "\<not> list_ex failed pre"
  then have "res = Inl (ApiError e) \<and> evs1 @ evs2 = (evs1 @ pre) @ [Execute rq (Some e)]
      \<and> \<not> list_ex failed (evs1 @ pre)"
    using assms(1) by simp
  then show "\<not> list_ex failed (evs1 @ evs2) \<or>
    (\<exists>pre rq e. res = Inl (ApiError e) \<and> evs1 @ evs2 = pre @ [Execute rq (Some e)] \<and> \<not> list_ex failed pre)"
    by blast
qed

lemma find_shape:
  "\<exists>evs. trace (snd (find_file_in_folder cl s fn fid w)) = trace w @ evs
       \<and> fatal_shape (fst (find_file_in_folder cl s fn fid w)) evs"
  by (auto simp: find_file_in_folder_def call_def emit_def Let_def fatal_shape_def
           split: prod.splits sum.splits jvalue.splits list.splits option.splits node.splits)

lemma upload_file_shape:
  "\<exists>evs. trace (snd (upload_file cl F s p w)) = trace w @ evs
       \<and> fatal_shape (fst (upload_file cl F s p w)) evs"
  by (auto simp: upload_file_def find_file_in_folder_def call_def emit_def Let_def
                 fatal_shape_def
           split: prod.splits sum.splits jvalue.splits list.splits option.splits node.splits)

lemma upload_all_shape:
  "\<exists>evs. trace (snd (upload_all cl F s ps w)) = trace w @ evs
       \<and> fatal_shape (fst (upload_all cl F s ps w)) evs"
proof (induction ps arbitrary: w)
  case Nil
  show ?case by (simp add: fatal_shape_def)
next
  case (Cons p ps)
  obtain evs1 where e1: "trace (snd (upload_file cl F s p w)) = trace w @ evs1"
      "fatal_shape (fst (upload_file cl F s p w)) evs1"
    using upload_file_shape by blast
  show ?case
  proof (cases "upload_file cl F s p w")
    case (Pair res w')
    show ?thesis
    proof (cases res)
      case (Inl x)
      with Pair e1 show ?thesis by auto
    next
      case (Inr u)
      obtain evs2 where e2: "trace (snd (upload_all cl F s ps w')) = trace w' @ evs2"
          "fatal_shape (fst (upload_all cl F s ps w')) evs2"
        using Cons.IH by blast
      have c1: "\<not> list_ex failed evs1"
        using e1(2) Pair Inr fatal_shape_Inr by fastforce
      have "trace (snd (upload_all cl F s (p # ps) w)) = trace w @ (evs1 @ evs2)"
        using Pair Inr e1 e2 by simp
      moreover have "fatal_shape (fst (upload_all cl F s (p # ps) w)) (evs1 @ evs2)"
        using Pair Inr e2(2) c1 by (simp add: fatal_shape_seq)
      ultimately show ?thesis by blast
    qed
  qed
qed

lemma authenticate_clean:
  "\<exists>evs. trace (snd (authenticate cl w)) = trace w @ evs \<and> \<not> list_ex failed evs"
  by (auto simp: authenticate_def emit_def Let_def split: option.splits sum.splits node.splits)

lemma main_shape:
  "\<exists>evs. trace (snd (main cl F w)) = trace w @ evs \<and> fatal_shape (fst (main cl F w)) evs"
proof (cases "truthy F")
  case False
  then show ?thesis by (simp add: main_def emit_def fatal_shape_def)
next
  case True
  obtain evs1 where e1: "trace (snd (authenticate cl (emit (Print MsgStart) w))) =
      trace w @ Print MsgStart # evs1" "\<not> list_ex failed evs1"
    using authenticate_clean [of cl "emit (Print MsgStart) w"] by (auto simp: emit_def)
  have c1: "\<not> list_ex failed (Print MsgStart # evs1)"
    using e1 by simp
  show ?thesis
  proof (cases "authenticate cl (emit (Print MsgStart) w)")
    case (Pair res w2)
    show ?thesis
    proof (cases res)
      case (Inl x)
      with Pair e1 True have "trace (snd (main cl F w)) = trace w @ (Print MsgStart # evs1)"
        by (simp add: main_def)
      moreover have "fatal_shape (fst (main cl F w)) (Print MsgStart # evs1)"
        using c1 by (simp add: fatal_shape_def)
      ultimately show ?thesis by blast
    next
      case (Inr svc)
      obtain evs2 where e2: "trace (snd (upload_all cl F svc FILES_TO_UPLOAD w2)) = trace w2 @ evs2"
          "fatal_shape (fst (upload_all cl F svc FILES_TO_UPLOAD w2)) evs2"
        using upload_all_shape by blast
      show ?thesis
      proof (cases "upload_all cl F svc FILES_TO_UPLOAD w2")
        case P2: (Pair res2 w3)
        show ?thesis
        proof (cases res2)
          case I2: (Inl x)
          have "trace (snd (main cl F w)) = trace w @ ((Print MsgStart # evs1) @ evs2)"
            using Pair Inr P2 I2 e1 e2 True by (simp add: main_def)
          moreover have "fatal_shape (fst (main cl F w)) ((Print MsgStart # evs1) @ evs2)"
            using Pair Inr P2 I2 e2(2) True c1
            by (intro fatal_shape_seq) (simp_all add: main_def)
          ultimately show ?thesis by blast
        next
          case I2: (Inr u)
          have c2: "\<not> list_ex failed evs2"
            using e2(2) P2 I2 fatal_shape_Inr by fastforce
          have "trace (snd (main cl F w)) =
                  trace w @ ((Print MsgStart # evs1) @ evs2 @ [Print MsgAllDone])"
            using Pair Inr P2 I2 e1 e2 True by (simp add: main_def emit_def)
          moreover have "fatal_shape (fst (main cl F w))
                  ((Print MsgStart # evs1) @ evs2 @ [Print MsgAllDone])"
            using c1 c2 by (simp add: fatal_shape_def)
          ultimately show ?thesis by blast
        qed
      qed
    qed
  qed
qed

text \<open>
  C6. Whenever a request of the run (a list, a create or an update) raises an API error,
  that error is what \<open>main\<close> raises, the process exits with code 1, and the failed
  request is the last thing the run did before the traceback of that same error: no
  request follows it (no retry, no further file task), and no request before it had
  failed.
\<close>

theorem C6_remote_errors_end_the_run:
  assumes "Execute rq (Some e) \<in> set (new_events w (snd (run cl environ w)))"
  shows "fst (main cl (environ ''GOOGLE_DRIVE_FOLDER_ID'') w) = Inl (ApiError e)
       \<and> fst (run cl environ w) = 1
       \<and> (\<exists>pre. new_events w (snd (run cl environ w)) =
                  pre @ [Execute rq (Some e), Traceback (ApiError e)]
               \<and> \<not> list_ex failed pre)"
proof -
  let ?F = "environ ''GOOGLE_DRIVE_FOLDER_ID''"
  obtain res w' where m: "main cl ?F w = (res, w')"
    by (cases "main cl ?F w")
  obtain evs where e: "trace w' = trace w @ evs" "fatal_shape res evs"
    using main_shape [of cl ?F w] m by auto
  have tb: "\<exists>tb. new_events w (snd (run cl environ w)) = evs @ tb
              \<and> (\<forall>ev \<in> set tb. \<exists>x. ev = Traceback x)"
    using m e(1)
    by (auto simp: run_def new_events_def emit_def split: sum.splits exn.splits)
  then have "Execute rq (Some e) \<in> set evs"
    using assms by auto
  then have f: "list_ex failed evs"
    unfolding list_ex_iff by (rule bexI [rotated]) simp
  then obtain pre rq' e' where s: "res = Inl (ApiError e')" "evs = pre @ [Execute rq' (Some e')]"
      "\<not> list_ex failed pre"
    using e(2) unfolding fatal_shape_def by blast
  have "Execute rq (Some e) \<notin> set pre"
  proof
    assume "Execute rq (Some e) \<in> set pre"
    then have "list_ex failed pre"
      unfolding list_ex_iff by (rule bexI [rotated]) simp
    with s(3) show False by simp
  qed
  with \<open>Execute rq (Some e) \<in> set evs\<close> s(2) have eq: "rq' = rq" "e' = e"
    by auto
  have r: "run cl environ w = (1, emit (Traceback (ApiError e)) w')"
    using m s(1) eq by (simp add: run_def)
  have "new_events w (snd (run cl environ w)) = pre @ [Execute rq (Some e), Traceback (ApiError e)]"
    using r e(1) s(2) eq by (simp add: new_events_def emit_def)
  with m s eq r show ?thesis by simp
qed

lemma quota_run:
  "run (stub answer_quota) demo_environ full_world =
     (1, full_world\<lparr>trace :=
        [Print MsgStart, LoadKey ''credentials.json'' SCOPES, Build ''key'',
         Print (MsgProcessing ''scandata.csv''),
         Execute (FilesList (build_query ''scandata.csv'' (Some ''F1'')) ''files(id, name)'') None,
         Print MsgCreating,
         Execute (FilesCreate (Some \<lparr>md_name = ''scandata.csv'', md_parents = [Some ''F1'']\<rparr>)
                    \<lparr>mu_filename = ''/opt/deploy_dashboard/data/scandata.csv'',
                       mu_mimetype = ''text/csv'', mu_bytes = ''a,b''\<rparr> ''id'')
           (Some (HttpError 403)),
         Traceback (ApiError (HttpError 403))]\<rparr>)"
  by (simp add: run_def main_def authenticate_def upload_file_def find_file_in_folder_def
                call_def stub_def answer_quota_def get_files_def Let_def full_world_def
                demo_environ_def emit_def basename_def CREDENTIALS_FILE_def
                FILES_TO_UPLOAD_def)

theorem C6_witness:
  "Execute (FilesCreate (Some \<lparr>md_name = ''scandata.csv'', md_parents = [Some ''F1'']\<rparr>)
              \<lparr>mu_filename = ''/opt/deploy_dashboard/data/scandata.csv'',
                 mu_mimetype = ''text/csv'', mu_bytes = ''a,b''\<rparr> ''id'')
     (Some (HttpError 403))
     \<in> set (new_events full_world (snd (run (stub answer_quota) demo_environ full_world)))
   \<and> fst (run (stub answer_quota) demo_environ full_world) = 1
   \<and> fst (main (stub answer_quota) (demo_environ ''GOOGLE_DRIVE_FOLDER_ID'') full_world)
       = Inl (ApiError (HttpError 403))"
proof -
  have h: "Execute (FilesCreate (Some \<lparr>md_name = ''scandata.csv'', md_parents = [Some ''F1'']\<rparr>)
              \<lparr>mu_filename = ''/opt/deploy_dashboard/data/scandata.csv'',
                 mu_mimetype = ''text/csv'', mu_bytes = ''a,b''\<rparr> ''id'')
     (Some (HttpError 403))
     \<in> set (new_events full_world (snd (run (stub answer_quota) demo_environ full_world)))"
    unfolding quota_run by (simp add: new_events_def full_world_def)
  show ?thesis
    using h C6_remote_errors_end_the_run [OF h] by simp
qed

section \<open>The Locator against the reference store\<close>

text \<open>
  C2 (amended). For a file name and a folder identifier that contain neither a quote nor
  a backslash, the Locator run against the reference store issues one list call and
  returns the identifier of the first object, in the order of the store, whose name
  equals the name asked for, whose parents include the folder and which is not trashed;
  it returns \<open>None\<close> exactly when there is no such object. What it returns is therefore
  never an object of another name, of another folder, or a trashed one.
\<close>

theorem C2_locator_on_plain_names:
  assumes "plain filename" and "plain folder_id"
  shows "find_file_in_folder drive service filename (Some folder_id) w =
           (Inr (first_match (remote w) filename folder_id),
            emit (Execute (FilesList (build_query filename (Some folder_id))
                             ''files(id, name)'') None) w)
       \<and> (\<forall>i. first_match (remote w) filename folder_id = Some i \<longrightarrow>
             (\<exists>ob \<in> set (remote w). ro_id ob = i \<and> ro_name ob = filename
                 \<and> folder_id \<in> set (ro_parents ob) \<and> \<not> ro_trashed ob))
       \<and> (first_match (remote w) filename folder_id = None \<longleftrightarrow>
             (\<forall>ob \<in> set (remote w). \<not> (ro_name ob = filename
                 \<and> folder_id \<in> set (ro_parents ob) \<and> \<not> ro_trashed ob)))"
proof (intro conjI allI impI)
  show "find_file_in_folder drive service filename (Some folder_id) w =
           (Inr (first_match (remote w) filename folder_id),
            emit (Execute (FilesList (build_query filename (Some folder_id))
                             ''files(id, name)'') None) w)"
    by (rule find_drive_plain [OF assms])
next
  fix i assume "first_match (remote w) filename folder_id = Some i"
  then obtain ob rest where f: "filter (matches filename folder_id) (remote w) = ob # rest"
      "ro_id ob = i"
    by (auto simp: first_match_def split: list.splits)
  then have "ob \<in> set (filter (matches filename folder_id) (remote w))" by simp
  then have "ob \<in> set (remote w)" "matches filename folder_id ob" by simp_all
  with f(2) show "\<exists>ob \<in> set (remote w). ro_id ob = i \<and> ro_name ob = filename
                 \<and> folder_id \<in> set (ro_parents ob) \<and> \<not> ro_trashed ob"
    by (auto simp: matches_def)
next
  show "first_match (remote w) filename folder_id = None \<longleftrightarrow>
             (\<forall>ob \<in> set (remote w). \<not> (ro_name ob = filename
                 \<and> folder_id \<in> set (ro_parents ob) \<and> \<not> ro_trashed ob))"
  proof -
    have "first_match (remote w) filename folder_id = None \<longleftrightarrow>
            filter (matches filename folder_id) (remote w) = []"
      by (simp add: first_match_def split: list.splits)
    also have "\<dots> \<longleftrightarrow> (\<forall>ob \<in> set (remote w). \<not> matches filename folder_id ob)"
      by (simp add: filter_empty_conv)
    finally show ?thesis by (simp add: matches_def)
  qed
qed

theorem C2_witness:
  "plain ''scandata.csv'' \<and> plain ''F1''
   \<and> fst (find_file_in_folder drive ''svc'' ''scandata.csv'' (Some ''F1'')
            \<lparr>files = Map.empty, remote = busy_store, trace = []\<rparr>) = Inr (Some ''A'')"
proof -
  have h1: "plain ''scandata.csv''" and h2: "plain ''F1''"
    by (simp_all add: plain_def quote_def backslash_def)
  have "first_match busy_store ''scandata.csv'' ''F1'' = Some ''A''"
    by (simp add: first_match_def busy_store_def remote_csv_def matches_def)
  then show ?thesis
    using h1 h2 C2_locator_on_plain_names [OF h1 h2, of "''svc''"
        "\<lparr>files = Map.empty, remote = busy_store, trace = []\<rparr>"]
    by simp
qed

text \<open>
  The claim as first stated speaks of every file name. The source pastes the name into
  the query text between quotes and escapes nothing, so a name with an apostrophe ends
  the literal early: the store holds a live object of exactly that name in the folder,
  and the Locator raises the error of a malformed query instead of returning it.
\<close>

theorem C2_counterexample:
  "first_match apostrophe_store apostrophe_name ''F1'' = Some ''X''
   \<and> fst (find_file_in_folder drive ''svc'' apostrophe_name (Some ''F1'')
            \<lparr>files = Map.empty, remote = apostrophe_store, trace = []\<rparr>)
     = Inl (ApiError (HttpError 400))"
  by (simp add: first_match_def apostrophe_store_def apostrophe_name_def remote_csv_def
                matches_def find_file_in_folder_def call_def drive_def build_query_def
                parse_query_def quote_def backslash_def Let_def)

text \<open>
  This does not hang on how the reference store reads a query. Two different pairs of
  name and folder give the same query text, so no remote whatever, seeing only that text,
  can answer both as the claim requires.
\<close>

lemma build_query_collision:
  "build_query ''a'' (Some (''b'' @ [quote] @ '' and '' @ [quote] @ ''c'')) =
   build_query (''a'' @ [quote] @ '' and '' @ [quote] @ ''b'') (Some ''c'')"
  by (simp add: build_query_def)

lemma no_client_separates_colliding_queries:
  "\<not> (\<exists>cl :: store client. \<forall>st fn fid.
        fst (find_file_in_folder cl ''svc'' fn (Some fid)
               \<lparr>files = Map.empty, remote = st, trace = []\<rparr>) = Inr (first_match st fn fid))"
proof
  assume "\<exists>cl :: store client. \<forall>st fn fid.
        fst (find_file_in_folder cl ''svc'' fn (Some fid)
               \<lparr>files = Map.empty, remote = st, trace = []\<rparr>) = Inr (first_match st fn fid)"
  then obtain cl :: "store client" where c: "\<And>st fn fid.
        fst (find_file_in_folder cl ''svc'' fn (Some fid)
               \<lparr>files = Map.empty, remote = st, trace = []\<rparr>) = Inr (first_match st fn fid)"
    by blast
  let ?f1 = "''b'' @ [quote] @ '' and '' @ [quote] @ ''c''"
  let ?n2 = "''a'' @ [quote] @ '' and '' @ [quote] @ ''b''"
  let ?st = "[remote_csv ''X'' ''a'' ?f1 False]"
  have "find_file_in_folder cl ''svc'' ''a'' (Some ?f1)
          \<lparr>files = Map.empty, remote = ?st, trace = []\<rparr> =
        find_file_in_folder cl ''svc'' ?n2 (Some ''c'')
          \<lparr>files = Map.empty, remote = ?st, trace = []\<rparr>"
    by (simp only: find_file_in_folder_def build_query_collision)
  then have "first_match ?st ''a'' ?f1 = first_match ?st ?n2 ''c''"
    using c [of "''a''" ?f1 ?st] c [of ?n2 "''c''" ?st] by simp
  then show False
    by (simp add: first_match_def remote_csv_def matches_def)
qed

section \<open>What an update leaves alone\<close>

lemma find_drive_remote:
  "remote (snd (find_file_in_folder drive s fn fid w)) = remote w"
  by (auto simp: find_file_in_folder_def call_def drive_def emit_def Let_def
           split: prod.splits sum.splits jvalue.splits list.splits option.splits)

lemma metadata_put_media: "metadata_of (put_media m ob) = metadata_of ob"
  by (simp add: metadata_of_def put_media_def)

text \<open>
  C8. When the Locator returned an identifier that sends \<open>upload_file\<close> to the update
  branch, the one write is an update of that identifier with no metadata body, and in the
  reference store it changes content only: the identifiers, names, parents and trashed
  flags of all objects are as before, in the same order, and every object with another
  identifier is untouched.
\<close>

theorem C8_update_preserves_metadata:
  assumes "files w filepath = Some (Readable bytes)"
      and "find_file_in_folder drive service (basename filepath) FOLDER_ID
             (emit (Print (MsgProcessing (basename filepath))) w) = (Inr (Some X), w2)"
      and "X \<noteq> []"
  shows "filter is_write (requests (new_events w
            (snd (upload_file drive FOLDER_ID service filepath w))))
           = [FilesUpdate X None
                \<lparr>mu_filename = filepath, mu_mimetype = ''text/csv'', mu_bytes = bytes\<rparr> ''id'']
       \<and> map metadata_of (remote (snd (upload_file drive FOLDER_ID service filepath w)))
           = map metadata_of (remote w)
       \<and> (\<forall>ob \<in> set (remote (snd (upload_file drive FOLDER_ID service filepath w))).
             ro_id ob \<noteq> X \<longrightarrow> ob \<in> set (remote w))"
proof -
  have r2: "remote w2 = remote w"
    using find_drive_remote [of service "basename filepath" FOLDER_ID
        "emit (Print (MsgProcessing (basename filepath))) w"] assms(2)
    by (simp add: emit_def)
  have w: "filter is_write (requests (new_events w
            (snd (upload_file drive FOLDER_ID service filepath w))))
           = [FilesUpdate X None
                \<lparr>mu_filename = filepath, mu_mimetype = ''text/csv'', mu_bytes = bytes\<rparr> ''id'']"
    using upload_file_writes [OF assms(1,2)] assms(3) by (simp add: csv_media_def)
  have rem: "remote (snd (upload_file drive FOLDER_ID service filepath w)) =
          (if X \<in> set (map ro_id (remote w))
           then map (\<lambda>ob. if ro_id ob = X
                      then put_media \<lparr>mu_filename = filepath, mu_mimetype = ''text/csv'',
                                      mu_bytes = bytes\<rparr> ob
                      else ob) (remote w)
           else remote w)"
    using assms r2
    by (simp add: upload_file_def Let_def call_def drive_def emit_def put_metadata_def)
  have id: "\<And>m ob. ro_id (put_media m ob) = ro_id ob"
    by (simp add: put_media_def)
  show ?thesis
    using w by (auto simp: rem metadata_put_media id)
qed

theorem C8_witness:
  "map metadata_of (remote (snd (upload_file drive (Some ''F1'') ''svc'' ''/data/scandata.csv''
                                   busy_world)))
     = map metadata_of busy_store
   \<and> filter is_write (requests (new_events busy_world
         (snd (upload_file drive (Some ''F1'') ''svc'' ''/data/scandata.csv'' busy_world))))
     = [FilesUpdate ''A'' None
          \<lparr>mu_filename = ''/data/scandata.csv'', mu_mimetype = ''text/csv'', mu_bytes = ''a,b''\<rparr>
          ''id'']"
proof -
  have p: "plain ''scandata.csv''" "plain ''F1''"
    by (simp_all add: plain_def quote_def backslash_def)
  have b: "basename ''/data/scandata.csv'' = ''scandata.csv''"
    by (simp add: basename_def)
  have fm: "first_match busy_store ''scandata.csv'' ''F1'' = Some ''A''"
    by (simp add: first_match_def busy_store_def remote_csv_def matches_def)
  have h1: "files busy_world ''/data/scandata.csv'' = Some (Readable ''a,b'')"
    by (simp add: busy_world_def)
  have h2: "find_file_in_folder drive ''svc'' (basename ''/data/scandata.csv'') (Some ''F1'')
              (emit (Print (MsgProcessing (basename ''/data/scandata.csv''))) busy_world)
            = (Inr (Some ''A''),
               emit (Execute (FilesList (build_query ''scandata.csv'' (Some ''F1''))
                                ''files(id, name)'') None)
                 (emit (Print (MsgProcessing ''scandata.csv'')) busy_world))"
    using fm by (simp add: b find_drive_plain [OF p] remote_emit busy_world_def)
  have h3: "''A'' \<noteq> []" by simp
  show ?thesis
    using C8_update_preserves_metadata [OF h1 h2 h3] by (simp add: busy_world_def)
qed

section \<open>Two runs in succession\<close>



























end
